theory Spec2Isabelle
  imports Complex_Main
begin

section \<open>JavaScript numbers\<close>

text \<open>
  The class \<open>PropertyCalculator\<close>, which the routes of \<^verbatim>\<open>server/routes/properties.js\<close>
  build from a request body, works on JavaScript numbers. A number
  is modelled as one of the IEEE special values (\<open>NaN\<close>, the two infinities, the negative
  zero) or a finite value \<open>Fin x\<close>; \<open>Fin 0\<close> is the positive zero. Finite arithmetic is
  exact: the value of an operation on finite operands is the real result, so rounding to
  53 bits, overflow to an infinity and underflow to zero are not part of the model. What
  the model keeps of IEEE arithmetic is everything the calculator can run into without
  rounding: division by zero, the sign of a zero, and the propagation of infinities and
  of \<open>NaN\<close>. A finite value that the model computes is therefore the value of the
  program only where no operation rounds; the statements below about every request say
  which operations are applied to which operands, and do not rest on finite values.
\<close>

datatype jsnum = Fin real | NegZero | PInf | NInf | NaN

fun val :: "jsnum \<Rightarrow> real" where
  "val (Fin x) = x"
| "val _ = 0"

fun finite_num :: "jsnum \<Rightarrow> bool" where
  "finite_num (Fin x) = True"
| "finite_num NegZero = True"
| "finite_num _ = False"

fun is_zero :: "jsnum \<Rightarrow> bool" where
  "is_zero (Fin x) = (x = 0)"
| "is_zero NegZero = True"
| "is_zero _ = False"

fun is_inf :: "jsnum \<Rightarrow> bool" where
  "is_inf PInf = True"
| "is_inf NInf = True"
| "is_inf _ = False"

text \<open>The sign bit of a number that is not \<open>NaN\<close>.\<close>

fun sign_neg :: "jsnum \<Rightarrow> bool" where
  "sign_neg (Fin x) = (x < 0)"
| "sign_neg NegZero = True"
| "sign_neg NInf = True"
| "sign_neg _ = False"

definition signed_zero :: "bool \<Rightarrow> jsnum" where
  "signed_zero neg = (if neg then NegZero else Fin 0)"

definition signed_inf :: "bool \<Rightarrow> jsnum" where
  "signed_inf neg = (if neg then NInf else PInf)"

text \<open>A finite result \<open>x\<close>; when it is zero, the zero has the given sign.\<close>

definition mk_fin :: "real \<Rightarrow> bool \<Rightarrow> jsnum" where
  "mk_fin x neg = (if x = 0 then signed_zero neg else Fin x)"

fun js_neg :: "jsnum \<Rightarrow> jsnum" where
  "js_neg (Fin x) = mk_fin (- x) True"
| "js_neg NegZero = Fin 0"
| "js_neg PInf = NInf"
| "js_neg NInf = PInf"
| "js_neg NaN = NaN"

text \<open>
  \<open>a + b\<close>: opposite infinities give \<open>NaN\<close>; a zero sum is negative only when both
  operands are the negative zero.
\<close>

definition js_add :: "jsnum \<Rightarrow> jsnum \<Rightarrow> jsnum" where
  "js_add a b =
     (if a = NaN \<or> b = NaN then NaN
      else if is_inf a \<and> is_inf b then (if a = b then a else NaN)
      else if is_inf a then a
      else if is_inf b then b
      else mk_fin (val a + val b) (a = NegZero \<and> b = NegZero))"

definition js_sub :: "jsnum \<Rightarrow> jsnum \<Rightarrow> jsnum" where
  "js_sub a b = js_add a (js_neg b)"

definition js_mul :: "jsnum \<Rightarrow> jsnum \<Rightarrow> jsnum" where
  "js_mul a b =
     (if a = NaN \<or> b = NaN then NaN
      else if is_inf a \<or> is_inf b then
        (if is_zero a \<or> is_zero b then NaN else signed_inf (sign_neg a \<noteq> sign_neg b))
      else mk_fin (val a * val b) (sign_neg a \<noteq> sign_neg b))"

definition js_div :: "jsnum \<Rightarrow> jsnum \<Rightarrow> jsnum" where
  "js_div a b =
     (if a = NaN \<or> b = NaN then NaN
      else if is_inf a then
        (if is_inf b then NaN else signed_inf (sign_neg a \<noteq> sign_neg b))
      else if is_inf b then signed_zero (sign_neg a \<noteq> sign_neg b)
      else if is_zero b then
        (if is_zero a then NaN else signed_inf (sign_neg a \<noteq> sign_neg b))
      else mk_fin (val a / val b) (sign_neg a \<noteq> sign_neg b))"

text \<open>The comparisons \<open><\<close>, \<open>>=\<close> and \<open>===\<close>: each is false when an operand is \<open>NaN\<close>.\<close>

definition js_lt :: "jsnum \<Rightarrow> jsnum \<Rightarrow> bool" where
  "js_lt a b =
     (if a = NaN \<or> b = NaN then False
      else if a = PInf \<or> b = NInf then False
      else if a = NInf \<or> b = PInf then True
      else val a < val b)"

definition js_ge :: "jsnum \<Rightarrow> jsnum \<Rightarrow> bool" where
  "js_ge a b = (a \<noteq> NaN \<and> b \<noteq> NaN \<and> \<not> js_lt a b)"

definition js_strict_eq :: "jsnum \<Rightarrow> jsnum \<Rightarrow> bool" where
  "js_strict_eq a b =
     (if a = NaN \<or> b = NaN then False
      else if is_inf a \<or> is_inf b then a = b
      else val a = val b)"

text \<open>\<open>a || b\<close> on numbers: \<open>a\<close> is falsy when it is a zero or \<open>NaN\<close>.\<close>

definition truthy :: "jsnum \<Rightarrow> bool" where
  "truthy a = (a \<noteq> NaN \<and> \<not> is_zero a)"

definition js_or :: "jsnum \<Rightarrow> jsnum \<Rightarrow> jsnum" where
  "js_or a b = (if truthy a then a else b)"

text \<open>
  \<open>Math.pow(base, exponent)\<close>, by the cases of \<open>Number::exponentiate\<close>. For a finite
  base and exponent, both not zero, the result is the exact power.
\<close>

definition is_integer :: "real \<Rightarrow> bool" where
  "is_integer x = (of_int \<lfloor>x\<rfloor> = x)"

definition odd_integer :: "jsnum \<Rightarrow> bool" where
  "odd_integer e = (finite_num e \<and> is_integer (val e) \<and> odd \<lfloor>val e\<rfloor>)"

definition Math_pow :: "jsnum \<Rightarrow> jsnum \<Rightarrow> jsnum" where
  "Math_pow b e =
     (if e = NaN then NaN
      else if is_zero e then Fin 1
      else if b = NaN then NaN
      else if b = PInf then (if js_lt (Fin 0) e then PInf else Fin 0)
      else if b = NInf then
        (if js_lt (Fin 0) e then (if odd_integer e then NInf else PInf)
         else (if odd_integer e then NegZero else Fin 0))
      else if b = Fin 0 then (if js_lt (Fin 0) e then Fin 0 else PInf)
      else if b = NegZero then
        (if js_lt (Fin 0) e then (if odd_integer e then NegZero else Fin 0)
         else (if odd_integer e then NInf else PInf))
      else if e = PInf then
        (if 1 < \<bar>val b\<bar> then PInf else if \<bar>val b\<bar> = 1 then NaN else Fin 0)
      else if e = NInf then
        (if 1 < \<bar>val b\<bar> then Fin 0 else if \<bar>val b\<bar> = 1 then NaN else PInf)
      else if is_integer (val e) then Fin (val b powi \<lfloor>val e\<rfloor>)
      else if val b < 0 then NaN
      else Fin (val b powr val e))"

text \<open>\<open>Math.abs\<close>, with which the test suite compares two numbers within a tolerance.\<close>

fun Math_abs :: "jsnum \<Rightarrow> jsnum" where
  "Math_abs (Fin x) = Fin \<bar>x\<bar>"
| "Math_abs NegZero = Fin 0"
| "Math_abs PInf = PInf"
| "Math_abs NInf = PInf"
| "Math_abs NaN = NaN"

section \<open>Strings and the conversions between strings and numbers\<close>

text \<open>
  A string is a list of 8-bit code units (\<open>Chars\<close>); code units above 255 are not
  modelled. The string that \<open>Number::toString\<close>
  gives for a finite number other than zero is kept as \<open>NumberString x\<close>: its digits are
  the shortest ones that read back as the same number, and reading it back is all the
  calculator does with it.
\<close>

datatype jsstring = Chars string | NumberString real

definition Number_toString :: "jsnum \<Rightarrow> jsstring" where
  "Number_toString x =
     (case x of
        NaN \<Rightarrow> Chars ''NaN''
      | PInf \<Rightarrow> Chars ''Infinity''
      | NInf \<Rightarrow> Chars ''-Infinity''
      | NegZero \<Rightarrow> Chars ''0''
      | Fin r \<Rightarrow> if r = 0 then Chars ''0'' else NumberString r)"

text \<open>White space and line terminators, as \<open>TrimString\<close> strips them.\<close>

definition is_ws :: "char \<Rightarrow> bool" where
  "is_ws c = (c \<in> set [CHR 0x09, CHR 0x0A, CHR 0x0B, CHR 0x0C, CHR 0x0D, CHR 0x20, CHR 0xA0])"

definition digit_table :: "(char \<times> nat) list" where
  "digit_table =
     [(CHR ''0'', 0), (CHR ''1'', 1), (CHR ''2'', 2), (CHR ''3'', 3), (CHR ''4'', 4),
      (CHR ''5'', 5), (CHR ''6'', 6), (CHR ''7'', 7), (CHR ''8'', 8), (CHR ''9'', 9),
      (CHR ''a'', 10), (CHR ''b'', 11), (CHR ''c'', 12), (CHR ''d'', 13), (CHR ''e'', 14),
      (CHR ''f'', 15), (CHR ''A'', 10), (CHR ''B'', 11), (CHR ''C'', 12), (CHR ''D'', 13),
      (CHR ''E'', 14), (CHR ''F'', 15)]"

definition digit_of :: "nat \<Rightarrow> char \<Rightarrow> nat option" where
  "digit_of radix c =
     (case map_of digit_table c of
        None \<Rightarrow> None
      | Some d \<Rightarrow> if d < radix then Some d else None)"

text \<open>The longest prefix of digits of the radix, and what follows it.\<close>

fun take_digits :: "nat \<Rightarrow> string \<Rightarrow> nat list \<times> string" where
  "take_digits radix [] = ([], [])"
| "take_digits radix (c # cs) =
     (case digit_of radix c of
        None \<Rightarrow> ([], c # cs)
      | Some d \<Rightarrow> (let (ds, rest) = take_digits radix cs in (d # ds, rest)))"

definition digits_val :: "nat \<Rightarrow> nat list \<Rightarrow> nat" where
  "digits_val radix ds = foldl (\<lambda>a d. a * radix + d) 0 ds"

definition parse_sign :: "string \<Rightarrow> bool \<times> string" where
  "parse_sign s =
     (case s of
        [] \<Rightarrow> (False, s)
      | c # cs \<Rightarrow>
          if c = CHR ''-'' then (True, cs)
          else if c = CHR ''+'' then (False, cs)
          else (False, s))"

text \<open>The value of the exponent part a string starts with; 0 when it starts with none.\<close>

definition parse_exponent :: "string \<Rightarrow> int" where
  "parse_exponent s =
     (case s of
        [] \<Rightarrow> 0
      | c # cs \<Rightarrow>
          if c = CHR ''e'' \<or> c = CHR ''E'' then
            (let (neg, t) = parse_sign cs; (ds, rest) = take_digits 10 t
             in if ds = [] then 0
                else if neg then - int (digits_val 10 ds) else int (digits_val 10 ds))
          else 0)"

text \<open>
  \<open>parseFloat\<close> on the characters of a string: leading white space is dropped, and the
  longest prefix that is a decimal literal (a sign, \<open>Infinity\<close> or digits with an optional
  fraction and exponent) is read; \<open>NaN\<close> when there is no such prefix. The value of the
  literal is exact: a literal beyond the range of the doubles is not read as an infinity
  or as zero.
\<close>

definition parseFloat_chars :: "string \<Rightarrow> jsnum" where
  "parseFloat_chars s =
     (let (neg, t) = parse_sign (dropWhile is_ws s)
      in if take 8 t = ''Infinity'' then signed_inf neg
         else
           (let (ip, r1) = take_digits 10 t;
                (fp, r2) = (case r1 of
                              [] \<Rightarrow> ([], r1)
                            | c # cs \<Rightarrow> if c = CHR ''.'' then take_digits 10 cs else ([], r1))
            in if ip = [] \<and> fp = [] then NaN
               else
                 (let m = (real (digits_val 10 ip) + real (digits_val 10 fp) / 10 ^ length fp)
                          * 10 powi parse_exponent r2
                  in mk_fin (if neg then - m else m) neg)))"

text \<open>
  \<open>parseInt\<close> with no radix on the characters of a string: white space, a sign, an
  optional \<open>0x\<close> that selects radix 16, then the longest prefix of digits.
\<close>

definition parseInt_chars :: "string \<Rightarrow> jsnum" where
  "parseInt_chars s =
     (let (neg, t) = parse_sign (dropWhile is_ws s);
          (radix, u) = (if take 2 t = ''0x'' \<or> take 2 t = ''0X'' then (16, drop 2 t)
                        else (10, t));
          (ds, rest) = take_digits radix u
      in if ds = [] then NaN
         else mk_fin (if neg then - real (digits_val radix ds) else real (digits_val radix ds)) neg)"

text \<open>
  The first significant decimal digit of a positive number: what \<open>parseInt\<close> reads of a
  number string in exponent notation (\<open>5e-7\<close>, \<open>1.5e+21\<close>).
\<close>

fun lead_digit :: "nat \<Rightarrow> nat" where
  "lead_digit n = (if n < 10 then n else lead_digit (n div 10))"

fun pow10_above :: "nat \<Rightarrow> nat" where
  "pow10_above n = (if n \<le> 1 then 0 else Suc (pow10_above ((n + 9) div 10)))"

declare lead_digit.simps [simp del] pow10_above.simps [simp del]

definition first_digit :: "real \<Rightarrow> nat" where
  "first_digit x =
     (if 1 \<le> x then lead_digit (nat \<lfloor>x\<rfloor>)
      else nat \<lfloor>x * 10 ^ pow10_above (nat \<lceil>1 / x\<rceil>)\<rfloor>)"

text \<open>
  A number string is in decimal notation when \<open>|x|\<close> is at least \<open>10\<^sup>-\<^sup>6\<close> and below
  \<open>10\<^sup>2\<^sup>1\<close>, where \<open>parseInt\<close> reads the digits before the point, and in exponent notation
  otherwise.
\<close>

definition parseInt_number :: "real \<Rightarrow> jsnum" where
  "parseInt_number x =
     (let a = \<bar>x\<bar>;
          n = (if a = 0 then 0
               else if 1 / 10 ^ 6 \<le> a \<and> a < 10 ^ 21 then nat \<lfloor>a\<rfloor>
               else first_digit a)
      in mk_fin (if x < 0 then - real n else real n) (x < 0))"

fun parseFloat_string :: "jsstring \<Rightarrow> jsnum" where
  "parseFloat_string (Chars s) = parseFloat_chars s"
| "parseFloat_string (NumberString x) = Fin x"

fun parseInt_string :: "jsstring \<Rightarrow> jsnum" where
  "parseInt_string (Chars s) = parseInt_chars s"
| "parseInt_string (NumberString x) = parseInt_number x"

text \<open>
  \<open>x.toFixed(2)\<close>: the decimal digits of the integer \<open>n\<close> nearest to \<open>100 |x|\<close> (the
  larger one on a tie), padded to three digits, with a point before the last two and the
  sign of \<open>x\<close> in front; the number string of \<open>x\<close> when \<open>x\<close> is not finite or \<open>|x|\<close> is
  \<open>10\<^sup>2\<^sup>1\<close> or more.
\<close>

fun digits_of :: "nat \<Rightarrow> string" where
  "digits_of n =
     (if n < 10 then [''0123456789'' ! n]
      else digits_of (n div 10) @ [''0123456789'' ! (n mod 10)])"

declare digits_of.simps [simp del]

definition toFixed2 :: "jsnum \<Rightarrow> jsstring" where
  "toFixed2 x =
     (if \<not> finite_num x then Number_toString x
      else
        (let s = (if val x < 0 then ''-'' else []);
             a = \<bar>val x\<bar>
         in if 10 ^ 21 \<le> a then Number_toString x
            else
              (let n = nat \<lfloor>a * 100 + 1 / 2\<rfloor>;
                   m = digits_of n;
                   z = (if length m \<le> 2 then replicate (3 - length m) (CHR ''0'') @ m else m);
                   k = length z
               in Chars (s @ take (k - 2) z @ ''.'' @ drop (k - 2) z))))"

section \<open>Request values\<close>

text \<open>
  The fields of a request body, as \<open>express.json()\<close> and \<open>express.urlencoded()\<close> deliver
  them: numbers, strings, booleans and \<open>null\<close>; a field that is absent reads as
  \<open>undefined\<close>. Arrays and nested objects as field values are outside the model.
\<close>

datatype jsval = Undefined | Null | JBool bool | JNum jsnum | JStr jsstring

fun ToString :: "jsval \<Rightarrow> jsstring" where
  "ToString Undefined = Chars ''undefined''"
| "ToString Null = Chars ''null''"
| "ToString (JBool b) = Chars (if b then ''true'' else ''false'')"
| "ToString (JNum x) = Number_toString x"
| "ToString (JStr s) = s"

definition parseFloat :: "jsval \<Rightarrow> jsnum" where
  "parseFloat v = parseFloat_string (ToString v)"

definition parseInt :: "jsval \<Rightarrow> jsnum" where
  "parseInt v = parseInt_string (ToString v)"

text \<open>The request body: an object, read by field name.\<close>

type_synonym propertyData = "string \<rightharpoonup> jsval"

definition field :: "propertyData \<Rightarrow> string \<Rightarrow> jsval" where
  "field propertyData name = (case propertyData name of None \<Rightarrow> Undefined | Some v \<Rightarrow> v)"

section \<open>The calculator\<close>

record PropertyCalculator =
  purchasePrice :: jsnum
  downPaymentPercent :: jsnum
  interestRate :: jsnum
  loanTerm :: jsnum
  monthlyRent :: jsnum
  propertyTax :: jsnum
  insurance :: jsnum
  hoaFees :: jsnum
  maintenancePercent :: jsnum
  vacancyPercent :: jsnum
  propertyManagementPercent :: jsnum

text \<open>The constructor: every field is parsed, and a falsy result gives way to the default.\<close>

definition new_PropertyCalculator :: "propertyData \<Rightarrow> PropertyCalculator" where
  "new_PropertyCalculator propertyData =
     \<lparr> purchasePrice = js_or (parseFloat (field propertyData ''purchasePrice'')) (Fin 0),
       downPaymentPercent = js_or (parseFloat (field propertyData ''downPaymentPercent'')) (Fin 20),
       interestRate = js_or (parseFloat (field propertyData ''interestRate'')) (Fin 7),
       loanTerm = js_or (parseInt (field propertyData ''loanTerm'')) (Fin 30),
       monthlyRent = js_or (parseFloat (field propertyData ''monthlyRent'')) (Fin 0),
       propertyTax = js_or (parseFloat (field propertyData ''propertyTax'')) (Fin 0),
       insurance = js_or (parseFloat (field propertyData ''insurance'')) (Fin 0),
       hoaFees = js_or (parseFloat (field propertyData ''hoaFees'')) (Fin 0),
       maintenancePercent = js_or (parseFloat (field propertyData ''maintenancePercent'')) (Fin 1),
       vacancyPercent = js_or (parseFloat (field propertyData ''vacancyPercent'')) (Fin 5),
       propertyManagementPercent =
         js_or (parseFloat (field propertyData ''propertyManagementPercent'')) (Fin 10) \<rparr>"

definition getDownPayment :: "PropertyCalculator \<Rightarrow> jsnum" where
  "getDownPayment this = js_div (js_mul (purchasePrice this) (downPaymentPercent this)) (Fin 100)"

definition getLoanAmount :: "PropertyCalculator \<Rightarrow> jsnum" where
  "getLoanAmount this = js_sub (purchasePrice this) (getDownPayment this)"

definition getMonthlyMortgage :: "PropertyCalculator \<Rightarrow> jsnum" where
  "getMonthlyMortgage this =
     (let loanAmount = getLoanAmount this;
          monthlyRate = js_div (js_div (interestRate this) (Fin 100)) (Fin 12);
          numPayments = js_mul (loanTerm this) (Fin 12)
      in if js_strict_eq monthlyRate (Fin 0) then js_div loanAmount numPayments
         else js_div
                (js_mul loanAmount
                   (js_mul monthlyRate (Math_pow (js_add (Fin 1) monthlyRate) numPayments)))
                (js_sub (Math_pow (js_add (Fin 1) monthlyRate) numPayments) (Fin 1)))"

record MonthlyExpenses =
  expenses_mortgage :: jsnum
  expenses_propertyTax :: jsnum
  expenses_insurance :: jsnum
  expenses_hoa :: jsnum
  expenses_maintenance :: jsnum
  expenses_vacancy :: jsnum
  expenses_management :: jsnum
  expenses_total :: jsnum

definition getMonthlyExpenses :: "PropertyCalculator \<Rightarrow> MonthlyExpenses" where
  "getMonthlyExpenses this =
     (let monthlyMortgage = getMonthlyMortgage this;
          monthlyPropertyTax = js_div (propertyTax this) (Fin 12);
          monthlyInsurance = js_div (insurance this) (Fin 12);
          monthlyHOA = hoaFees this;
          monthlyMaintenance = js_div (js_mul (monthlyRent this) (maintenancePercent this)) (Fin 100);
          monthlyVacancy = js_div (js_mul (monthlyRent this) (vacancyPercent this)) (Fin 100);
          monthlyManagement =
            js_div (js_mul (monthlyRent this) (propertyManagementPercent this)) (Fin 100)
      in \<lparr> expenses_mortgage = monthlyMortgage,
           expenses_propertyTax = monthlyPropertyTax,
           expenses_insurance = monthlyInsurance,
           expenses_hoa = monthlyHOA,
           expenses_maintenance = monthlyMaintenance,
           expenses_vacancy = monthlyVacancy,
           expenses_management = monthlyManagement,
           expenses_total =
             js_add (js_add (js_add (js_add (js_add (js_add
               monthlyMortgage
               monthlyPropertyTax)
               monthlyInsurance)
               monthlyHOA)
               monthlyMaintenance)
               monthlyVacancy)
               monthlyManagement \<rparr>)"

definition getMonthlyCashFlow :: "PropertyCalculator \<Rightarrow> jsnum" where
  "getMonthlyCashFlow this =
     (let expenses = getMonthlyExpenses this
      in js_sub (monthlyRent this) (expenses_total expenses))"

definition getAnnualCashFlow :: "PropertyCalculator \<Rightarrow> jsnum" where
  "getAnnualCashFlow this = js_mul (getMonthlyCashFlow this) (Fin 12)"

definition getNOI :: "PropertyCalculator \<Rightarrow> jsnum" where
  "getNOI this =
     (let annualRent = js_mul (monthlyRent this) (Fin 12);
          annualExpenses =
            js_add (js_add (js_add (js_add (js_add
              (propertyTax this)
              (insurance this))
              (js_mul (hoaFees this) (Fin 12)))
              (js_div (js_mul annualRent (maintenancePercent this)) (Fin 100)))
              (js_div (js_mul annualRent (vacancyPercent this)) (Fin 100)))
              (js_div (js_mul annualRent (propertyManagementPercent this)) (Fin 100))
      in js_sub annualRent annualExpenses)"

definition getCapRate :: "PropertyCalculator \<Rightarrow> jsstring" where
  "getCapRate this =
     (let noi = getNOI this
      in toFixed2 (js_mul (js_div noi (purchasePrice this)) (Fin 100)))"

definition getCashOnCashReturn :: "PropertyCalculator \<Rightarrow> jsstring" where
  "getCashOnCashReturn this =
     (let annualCashFlow = getAnnualCashFlow this;
          totalInvestment = getDownPayment this
      in toFixed2 (js_mul (js_div annualCashFlow totalInvestment) (Fin 100)))"

definition getROI :: "PropertyCalculator \<Rightarrow> jsstring" where
  "getROI this =
     (let annualCashFlow = getAnnualCashFlow this;
          totalInvestment = getDownPayment this
      in toFixed2 (js_mul (js_div annualCashFlow totalInvestment) (Fin 100)))"

record Recommendation =
  verdict :: string
  reason :: string
  color :: string

definition getRecommendation :: "jsnum \<Rightarrow> jsnum \<Rightarrow> Recommendation" where
  "getRecommendation monthlyCashFlow roi =
     (if js_lt monthlyCashFlow (Fin 0) then
        \<lparr> verdict = ''AVOID'',
          reason = ''Negative cash flow - This property will cost you money every month.'',
          color = ''red'' \<rparr>
      else if js_lt monthlyCashFlow (Fin 100) \<or> js_lt roi (Fin 5) then
        \<lparr> verdict = ''MARGINAL'',
          reason = ''Low returns - Consider negotiating a better price or finding higher rent.'',
          color = ''yellow'' \<rparr>
      else if js_ge roi (Fin 10) \<and> js_ge monthlyCashFlow (Fin 200) then
        \<lparr> verdict = ''EXCELLENT'',
          reason = ''Strong deal! This meets the 1% rule and provides solid cash flow.'',
          color = ''green'' \<rparr>
      else
        \<lparr> verdict = ''GOOD'',
          reason = ''Decent investment with positive cash flow.'',
          color = ''blue'' \<rparr>)"

record PurchaseInfo =
  purchaseInfo_purchasePrice :: jsnum
  purchaseInfo_downPayment :: jsnum
  purchaseInfo_downPaymentPercent :: jsnum
  purchaseInfo_loanAmount :: jsnum
  purchaseInfo_interestRate :: jsnum
  purchaseInfo_loanTerm :: jsnum

record MonthlyNumbers =
  monthlyNumbers_rent :: jsnum
  monthlyNumbers_mortgage :: jsnum
  monthlyNumbers_propertyTax :: jsnum
  monthlyNumbers_insurance :: jsnum
  monthlyNumbers_hoa :: jsnum
  monthlyNumbers_maintenance :: jsnum
  monthlyNumbers_vacancy :: jsnum
  monthlyNumbers_management :: jsnum
  monthlyNumbers_totalExpenses :: jsnum
  monthlyNumbers_cashFlow :: jsnum

record AnnualNumbers =
  annualNumbers_rent :: jsnum
  annualNumbers_cashFlow :: jsnum
  annualNumbers_noi :: jsnum

record Metrics =
  metrics_capRate :: jsnum
  metrics_cashOnCashReturn :: jsnum
  metrics_roi :: jsnum

record FinancialReport =
  purchaseInfo :: PurchaseInfo
  monthlyNumbers :: MonthlyNumbers
  annualNumbers :: AnnualNumbers
  metrics :: Metrics
  recommendation :: Recommendation

definition getFullAnalysis :: "PropertyCalculator \<Rightarrow> FinancialReport" where
  "getFullAnalysis this =
     (let expenses = getMonthlyExpenses this;
          monthlyCashFlow = getMonthlyCashFlow this;
          annualCashFlow = getAnnualCashFlow this
      in \<lparr> purchaseInfo =
             \<lparr> purchaseInfo_purchasePrice = purchasePrice this,
               purchaseInfo_downPayment = getDownPayment this,
               purchaseInfo_downPaymentPercent = downPaymentPercent this,
               purchaseInfo_loanAmount = getLoanAmount this,
               purchaseInfo_interestRate = interestRate this,
               purchaseInfo_loanTerm = loanTerm this \<rparr>,
           monthlyNumbers =
             \<lparr> monthlyNumbers_rent = monthlyRent this,
               monthlyNumbers_mortgage = expenses_mortgage expenses,
               monthlyNumbers_propertyTax = expenses_propertyTax expenses,
               monthlyNumbers_insurance = expenses_insurance expenses,
               monthlyNumbers_hoa = expenses_hoa expenses,
               monthlyNumbers_maintenance = expenses_maintenance expenses,
               monthlyNumbers_vacancy = expenses_vacancy expenses,
               monthlyNumbers_management = expenses_management expenses,
               monthlyNumbers_totalExpenses = expenses_total expenses,
               monthlyNumbers_cashFlow = monthlyCashFlow \<rparr>,
           annualNumbers =
             \<lparr> annualNumbers_rent = js_mul (monthlyRent this) (Fin 12),
               annualNumbers_cashFlow = annualCashFlow,
               annualNumbers_noi = getNOI this \<rparr>,
           metrics =
             \<lparr> metrics_capRate = parseFloat (JStr (getCapRate this)),
               metrics_cashOnCashReturn = parseFloat (JStr (getCashOnCashReturn this)),
               metrics_roi = parseFloat (JStr (getROI this)) \<rparr>,
           recommendation =
             getRecommendation monthlyCashFlow (parseFloat (JStr (getROI this))) \<rparr>)"

text \<open>
  The handler of \<open>POST /analyze\<close> (\<^verbatim>\<open>server/routes/properties.js\<close>): a calculator is
  built from the request body and its full analysis is the response.
\<close>

definition analyze :: "propertyData \<Rightarrow> FinancialReport" where
  "analyze propertyData = getFullAnalysis (new_PropertyCalculator propertyData)"

section \<open>Requests and predicates of the claims\<close>

text \<open>The sum of the seven components that a report's monthly numbers name.\<close>

definition sum_of_components :: "MonthlyNumbers \<Rightarrow> jsnum" where
  "sum_of_components m =
     js_add (js_add (js_add (js_add (js_add (js_add
       (monthlyNumbers_mortgage m)
       (monthlyNumbers_propertyTax m))
       (monthlyNumbers_insurance m))
       (monthlyNumbers_hoa m))
       (monthlyNumbers_maintenance m))
       (monthlyNumbers_vacancy m))
       (monthlyNumbers_management m)"

text \<open>The property of the test suite (\<^verbatim>\<open>server/tests/analyzer.test.js\<close>).\<close>

definition testProperty :: propertyData where
  "testProperty =
     [''address'' \<mapsto> JStr (Chars ''123 Test St''),
      ''city'' \<mapsto> JStr (Chars ''Austin''),
      ''state'' \<mapsto> JStr (Chars ''TX''),
      ''zipCode'' \<mapsto> JStr (Chars ''78701''),
      ''purchasePrice'' \<mapsto> JNum (Fin 300000),
      ''monthlyRent'' \<mapsto> JNum (Fin 2000),
      ''downPaymentPercent'' \<mapsto> JNum (Fin 20),
      ''interestRate'' \<mapsto> JNum (Fin 7),
      ''loanTerm'' \<mapsto> JNum (Fin 30),
      ''propertyTax'' \<mapsto> JNum (Fin 3000),
      ''insurance'' \<mapsto> JNum (Fin 1200),
      ''hoaFees'' \<mapsto> JNum (Fin 0),
      ''maintenancePercent'' \<mapsto> JNum (Fin 1),
      ''vacancyPercent'' \<mapsto> JNum (Fin 5),
      ''propertyManagementPercent'' \<mapsto> JNum (Fin 10)]"

text \<open>The eleven fields of the request that the constructor reads.\<close>

definition parameter_names :: "string list" where
  "parameter_names =
     [''purchasePrice'', ''downPaymentPercent'', ''interestRate'', ''loanTerm'',
      ''monthlyRent'', ''propertyTax'', ''insurance'', ''hoaFees'', ''maintenancePercent'',
      ''vacancyPercent'', ''propertyManagementPercent'']"

text \<open>
  A field gives way to its default when it is absent, when parsing it gives \<open>NaN\<close> (it is
  unparsable, or the number \<open>NaN\<close>), or when parsing it gives a zero.
\<close>

definition defaulted :: "(jsval \<Rightarrow> jsnum) \<Rightarrow> propertyData \<Rightarrow> string \<Rightarrow> bool" where
  "defaulted parse propertyData name \<longleftrightarrow>
     propertyData name = None
     \<or> parse (field propertyData name) = NaN
     \<or> is_zero (parse (field propertyData name))"

text \<open>A request whose fields are absent, unparsable or zero.\<close>

definition degenerateProperty :: propertyData where
  "degenerateProperty =
     [''purchasePrice'' \<mapsto> JStr (Chars ''abc''),
      ''downPaymentPercent'' \<mapsto> JNum (Fin 0),
      ''interestRate'' \<mapsto> JNum (Fin 0),
      ''loanTerm'' \<mapsto> JNum (Fin 0),
      ''propertyTax'' \<mapsto> JNum NaN,
      ''insurance'' \<mapsto> Null,
      ''hoaFees'' \<mapsto> JStr (Chars ''0''),
      ''maintenancePercent'' \<mapsto> JNum (Fin 0),
      ''vacancyPercent'' \<mapsto> JNum (Fin 0),
      ''propertyManagementPercent'' \<mapsto> JNum (Fin 0)]"

text \<open>The request of the test suite's case \<^verbatim>\<open>Edge Case: Zero down payment\<close>.\<close>

definition zeroDownProperty :: propertyData where
  "zeroDownProperty =
     [''address'' \<mapsto> JStr (Chars ''123 Test St''),
      ''city'' \<mapsto> JStr (Chars ''Austin''),
      ''state'' \<mapsto> JStr (Chars ''TX''),
      ''zipCode'' \<mapsto> JStr (Chars ''78701''),
      ''purchasePrice'' \<mapsto> JNum (Fin 300000),
      ''monthlyRent'' \<mapsto> JNum (Fin 2000),
      ''downPaymentPercent'' \<mapsto> JNum (Fin 0)]"

text \<open>The test suite's property with an interest rate of zero.\<close>

definition zeroRateProperty :: propertyData where
  "zeroRateProperty = testProperty(''interestRate'' \<mapsto> JNum (Fin 0))"

text \<open>Two requests that differ in the rent only, with maintenance at 100 percent of rent.\<close>

definition lowRentProperty :: propertyData where
  "lowRentProperty =
     [''monthlyRent'' \<mapsto> JNum (Fin 100), ''maintenancePercent'' \<mapsto> JNum (Fin 100)]"

definition highRentProperty :: propertyData where
  "highRentProperty = lowRentProperty(''monthlyRent'' \<mapsto> JNum (Fin 200))"


text \<open>The test suite's property with an interest rate of -2400 percent.\<close>

definition negativeRateProperty :: propertyData where
  "negativeRateProperty = testProperty(''interestRate'' \<mapsto> JNum (Fin (- 2400)))"


section \<open>Arithmetic on finite numbers\<close>

lemma mk_fin_nonzero: "x \<noteq> 0 \<Longrightarrow> mk_fin x neg = Fin x"
  by (simp add: mk_fin_def)

lemma finite_num_mk_fin: "finite_num (mk_fin x neg)"
  by (simp add: mk_fin_def signed_zero_def)

lemma finite_num_js_neg: "finite_num (js_neg a) = finite_num a"
  by (cases a) (simp_all add: finite_num_mk_fin)

lemma finite_num_js_add: "finite_num (js_add a b) \<longleftrightarrow> finite_num a \<and> finite_num b"
  by (cases a; cases b) (simp_all add: js_add_def finite_num_mk_fin)

lemma finite_num_js_sub: "finite_num (js_sub a b) \<longleftrightarrow> finite_num a \<and> finite_num b"
  by (simp add: js_sub_def finite_num_js_add finite_num_js_neg)

lemma finite_num_js_mul: "finite_num (js_mul a b) \<longleftrightarrow> finite_num a \<and> finite_num b"
  by (cases a; cases b) (simp_all add: js_mul_def finite_num_mk_fin signed_inf_def)

lemma finite_num_js_div_Fin: "k \<noteq> 0 \<Longrightarrow> finite_num (js_div a (Fin k)) \<longleftrightarrow> finite_num a"
  by (cases a) (simp_all add: js_div_def finite_num_mk_fin signed_inf_def)

lemma js_strict_eq_refl: "js_strict_eq a a \<longleftrightarrow> a \<noteq> NaN"
  by (simp add: js_strict_eq_def)

lemma js_sub_self: "finite_num a \<Longrightarrow> js_sub a a = Fin 0"
  by (cases a) (simp_all add: js_sub_def js_add_def mk_fin_def signed_zero_def)

lemma js_add_Fin: "js_add (Fin a) (Fin b) = Fin (a + b)"
  by (simp add: js_add_def mk_fin_def signed_zero_def)

lemma js_sub_Fin: "js_sub (Fin a) (Fin b) = Fin (a - b)"
  by (simp add: js_sub_def js_add_def mk_fin_def signed_zero_def)

lemma js_mul_Fin: "js_mul (Fin a) (Fin b) = mk_fin (a * b) ((a < 0) \<noteq> (b < 0))"
  by (simp add: js_mul_def)

lemma js_div_Fin: "b \<noteq> 0 \<Longrightarrow> js_div (Fin a) (Fin b) = mk_fin (a / b) ((a < 0) \<noteq> (b < 0))"
  by (simp add: js_div_def)

lemma is_integer_numeral: "is_integer (numeral n)"
  by (simp add: is_integer_def)

section \<open>Evaluating the calculator\<close>

lemmas parse_eval =
  field_def parseFloat_def parseInt_def Number_toString_def parseFloat_chars_def
  parseInt_chars_def parseInt_number_def parse_sign_def parse_exponent_def is_ws_def
  digit_of_def digit_table_def digits_val_def mk_fin_def signed_zero_def signed_inf_def
  js_or_def truthy_def Let_def

lemma new_testProperty:
  "new_PropertyCalculator testProperty =
     \<lparr> purchasePrice = Fin 300000, downPaymentPercent = Fin 20, interestRate = Fin 7,
       loanTerm = Fin 30, monthlyRent = Fin 2000, propertyTax = Fin 3000,
       insurance = Fin 1200, hoaFees = Fin 0, maintenancePercent = Fin 1,
       vacancyPercent = Fin 5, propertyManagementPercent = Fin 10 \<rparr>"
  by (simp add: new_PropertyCalculator_def testProperty_def parse_eval)

text \<open>
  The growth factor of the test suite's loan, \<open>(1 + 7/1200)\<^sup>3\<^sup>6\<^sup>0\<close>, lies between 8.08 and
  8.17; the bounds are carried through the fifth and the forty-fifth power.
\<close>

lemma pow5:
  "10295089 / 10000000 \<le> (1207 / 1200 :: real) ^ 5"
  "(1207 / 1200 :: real) ^ 5 \<le> 1029509 / 1000000"
  by (simp_all add: power_divide)

lemma pow45:
  "12991848 / 10000000 \<le> (1207 / 1200 :: real) ^ 45"
  "(1207 / 1200 :: real) ^ 45 \<le> 1299186 / 1000000"
proof -
  have e: "(1207 / 1200 :: real) ^ 45 = ((1207 / 1200) ^ 5) ^ 9"
    by (simp add: power_mult [symmetric])
  have "(12991848 / 10000000 :: real) \<le> (10295089 / 10000000) ^ 9"
    by (simp add: power_divide)
  also have "\<dots> \<le> ((1207 / 1200) ^ 5) ^ 9"
    by (rule power_mono [OF pow5(1)]) simp
  finally show "12991848 / 10000000 \<le> (1207 / 1200 :: real) ^ 45"
    by (simp only: e)
  have "((1207 / 1200 :: real) ^ 5) ^ 9 \<le> (1029509 / 1000000) ^ 9"
    by (rule power_mono [OF pow5(2)]) simp
  also have "\<dots> \<le> 1299186 / 1000000"
    by (simp add: power_divide)
  finally show "(1207 / 1200 :: real) ^ 45 \<le> 1299186 / 1000000"
    by (simp only: e)
qed

lemma pow360:
  "808 / 100 < (1207 / 1200 :: real) ^ 360"
  "(1207 / 1200 :: real) ^ 360 < 817 / 100"
proof -
  have e: "(1207 / 1200 :: real) ^ 360 = ((1207 / 1200) ^ 45) ^ 8"
    by (simp add: power_mult [symmetric])
  have "(808 / 100 :: real) < (12991848 / 10000000) ^ 8"
    by (simp add: power_divide)
  also have "\<dots> \<le> ((1207 / 1200) ^ 45) ^ 8"
    by (rule power_mono [OF pow45(1)]) simp
  finally show "808 / 100 < (1207 / 1200 :: real) ^ 360"
    by (simp only: e)
  have "((1207 / 1200 :: real) ^ 45) ^ 8 \<le> (1299186 / 1000000) ^ 8"
    by (rule power_mono [OF pow45(2)]) simp
  also have "\<dots> < 817 / 100"
    by (simp add: power_divide)
  finally show "(1207 / 1200 :: real) ^ 360 < 817 / 100"
    by (simp only: e)
qed

lemma amortization_bounds:
  fixes P :: real
  assumes "808 / 100 < P" "P < 817 / 100"
  shows "1595 < 240000 * (7 / 1200 * P) / (P - 1)"
    and "240000 * (7 / 1200 * P) / (P - 1) < 1598"
  using assms by (simp_all add: field_simps)

text \<open>A loan of 240000 (300000 at 20 percent down) at 7 percent over 30 years.\<close>

lemma standard_loan:
  assumes "purchasePrice this = Fin 300000" "downPaymentPercent this = Fin 20"
    "interestRate this = Fin 7" "loanTerm this = Fin 30"
  shows "getDownPayment this = Fin 60000"
    and "getLoanAmount this = Fin 240000"
    and "getMonthlyMortgage this =
      Fin (240000 * (7 / 1200 * (1207 / 1200) ^ 360) / ((1207 / 1200) ^ 360 - 1))"
proof -
  have P: "(1207 / 1200 :: real) ^ 360 - 1 \<noteq> 0" "(1207 / 1200 :: real) ^ 360 \<noteq> 0"
    using pow360(1) by linarith+
  have Q: "240000 * (7 / 1200 * (1207 / 1200 :: real) ^ 360) \<noteq> 0"
    using P(2) by simp
  show dp: "getDownPayment this = Fin 60000"
    by (simp add: getDownPayment_def assms js_mul_Fin js_div_Fin mk_fin_def)
  show la: "getLoanAmount this = Fin 240000"
    by (simp add: getLoanAmount_def dp assms js_sub_Fin)
  have "getMonthlyMortgage this =
     js_div (Fin (240000 * (7 / 1200 * (1207 / 1200) ^ 360))) (Fin ((1207 / 1200) ^ 360 - 1))"
    using P(2)
    by (simp add: getMonthlyMortgage_def la assms Let_def js_div_Fin js_mul_Fin js_add_Fin
        js_sub_Fin mk_fin_def js_strict_eq_def Math_pow_def is_integer_numeral)
  also have "\<dots> = Fin (240000 * (7 / 1200 * (1207 / 1200) ^ 360) / ((1207 / 1200) ^ 360 - 1))"
    unfolding js_div_Fin [OF P(1)] using P Q by (intro mk_fin_nonzero) simp
  finally show "getMonthlyMortgage this =
      Fin (240000 * (7 / 1200 * (1207 / 1200) ^ 360) / ((1207 / 1200) ^ 360 - 1))" .
qed

section \<open>The report\<close>

lemma report_monthly_cashFlow:
  "monthlyNumbers_cashFlow (monthlyNumbers (getFullAnalysis this)) = getMonthlyCashFlow this"
  by (simp add: getFullAnalysis_def Let_def)

lemma report_annual_cashFlow:
  "annualNumbers_cashFlow (annualNumbers (getFullAnalysis this)) = getAnnualCashFlow this"
  by (simp add: getFullAnalysis_def Let_def)

lemma report_totalExpenses:
  "monthlyNumbers_totalExpenses (monthlyNumbers (getFullAnalysis this)) =
     expenses_total (getMonthlyExpenses this)"
  by (simp add: getFullAnalysis_def Let_def)

lemma report_components:
  "sum_of_components (monthlyNumbers (getFullAnalysis this)) =
     js_add (js_add (js_add (js_add (js_add (js_add
       (getMonthlyMortgage this)
       (js_div (propertyTax this) (Fin 12)))
       (js_div (insurance this) (Fin 12)))
       (hoaFees this))
       (js_div (js_mul (monthlyRent this) (maintenancePercent this)) (Fin 100)))
       (js_div (js_mul (monthlyRent this) (vacancyPercent this)) (Fin 100)))
       (js_div (js_mul (monthlyRent this) (propertyManagementPercent this)) (Fin 100))"
  by (simp add: sum_of_components_def getFullAnalysis_def getMonthlyExpenses_def Let_def)

lemma total_unfold:
  "expenses_total (getMonthlyExpenses this) =
     js_add (js_add (js_add (js_add (js_add (js_add
       (getMonthlyMortgage this)
       (js_div (propertyTax this) (Fin 12)))
       (js_div (insurance this) (Fin 12)))
       (hoaFees this))
       (js_div (js_mul (monthlyRent this) (maintenancePercent this)) (Fin 100)))
       (js_div (js_mul (monthlyRent this) (vacancyPercent this)) (Fin 100)))
       (js_div (js_mul (monthlyRent this) (propertyManagementPercent this)) (Fin 100))"
  by (simp add: getMonthlyExpenses_def Let_def)

lemma test_totalExpenses_finite:
  "finite_num (expenses_total (getMonthlyExpenses (new_PropertyCalculator testProperty)))"
  by (simp add: total_unfold finite_num_js_add finite_num_js_div_Fin finite_num_js_mul
      standard_loan(3) new_testProperty)

lemma report_recommendation:
  "recommendation (getFullAnalysis this) =
     getRecommendation (monthlyNumbers_cashFlow (monthlyNumbers (getFullAnalysis this)))
       (metrics_roi (metrics (getFullAnalysis this)))"
  by (simp add: getFullAnalysis_def Let_def)

lemma report_purchaseInfo:
  "purchaseInfo_downPayment (purchaseInfo (getFullAnalysis this)) = getDownPayment this"
  "purchaseInfo_loanAmount (purchaseInfo (getFullAnalysis this)) = getLoanAmount this"
  "purchaseInfo_downPaymentPercent (purchaseInfo (getFullAnalysis this)) = downPaymentPercent this"
  by (simp_all add: getFullAnalysis_def Let_def)

lemma report_noi:
  "annualNumbers_noi (annualNumbers (getFullAnalysis this)) = getNOI this"
  by (simp add: getFullAnalysis_def Let_def)

lemma report_capRate:
  "metrics_capRate (metrics (getFullAnalysis this)) = parseFloat (JStr (getCapRate this))"
  by (simp add: getFullAnalysis_def Let_def)

lemma report_mortgage:
  "monthlyNumbers_mortgage (monthlyNumbers (getFullAnalysis this)) = getMonthlyMortgage this"
  by (simp add: getFullAnalysis_def getMonthlyExpenses_def Let_def)


lemma cashFlow_unfold:
  "getMonthlyCashFlow this =
     js_sub (monthlyRent this)
       (js_add (js_add (js_add (js_add (js_add (js_add
         (getMonthlyMortgage this)
         (js_div (propertyTax this) (Fin 12)))
         (js_div (insurance this) (Fin 12)))
         (hoaFees this))
         (js_div (js_mul (monthlyRent this) (maintenancePercent this)) (Fin 100)))
         (js_div (js_mul (monthlyRent this) (vacancyPercent this)) (Fin 100)))
         (js_div (js_mul (monthlyRent this) (propertyManagementPercent this)) (Fin 100)))"
  by (simp add: getMonthlyCashFlow_def total_unfold)

section \<open>The constructor\<close>

lemma parse_Undefined: "parseFloat Undefined = NaN" "parseInt Undefined = NaN"
  by (simp_all add: parse_eval)

lemma parse_JNum_NaN: "parseFloat (JNum NaN) = NaN" "parseInt (JNum NaN) = NaN"
  by (simp_all add: parse_eval)

lemma parse_JNum_zero:
  "parseFloat (JNum (Fin 0)) = Fin 0" "parseInt (JNum (Fin 0)) = Fin 0"
  "parseFloat (JNum NegZero) = Fin 0" "parseInt (JNum NegZero) = Fin 0"
  by (simp_all add: parse_eval)

lemma defaulted_parseFloat:
  "defaulted parseFloat propertyData name \<Longrightarrow>
     js_or (parseFloat (field propertyData name)) d = d"
  by (auto simp: defaulted_def js_or_def truthy_def field_def parse_Undefined)

lemma defaulted_parseInt:
  "defaulted parseInt propertyData name \<Longrightarrow>
     js_or (parseInt (field propertyData name)) d = d"
  by (auto simp: defaulted_def js_or_def truthy_def field_def parse_Undefined)

lemma js_or_nonzero: "k \<noteq> 0 \<Longrightarrow> \<not> is_zero (js_or a (Fin k))"
  by (simp add: js_or_def truthy_def)

lemma js_or_zero:
  "js_or (parseFloat (JNum (Fin 0))) d = d" "js_or (parseInt (JNum (Fin 0))) d = d"
  by (simp_all add: parse_JNum_zero js_or_def truthy_def)

lemma defaulted_cases:
  "propertyData name = None \<Longrightarrow> defaulted parse propertyData name"
  "field propertyData name = JNum NaN \<Longrightarrow> defaulted parseFloat propertyData name"
  "field propertyData name = JNum NaN \<Longrightarrow> defaulted parseInt propertyData name"
  "field propertyData name = JNum (Fin 0) \<Longrightarrow> defaulted parseFloat propertyData name"
  "field propertyData name = JNum (Fin 0) \<Longrightarrow> defaulted parseInt propertyData name"
  by (simp_all add: defaulted_def parse_JNum_NaN parse_JNum_zero)

lemma interestRate_never_zero: "\<not> is_zero (interestRate (new_PropertyCalculator propertyData))"
  by (simp add: new_PropertyCalculator_def js_or_def truthy_def)


lemma new_zeroDownProperty:
  "new_PropertyCalculator zeroDownProperty =
     \<lparr> purchasePrice = Fin 300000, downPaymentPercent = Fin 20, interestRate = Fin 7,
       loanTerm = Fin 30, monthlyRent = Fin 2000, propertyTax = Fin 0,
       insurance = Fin 0, hoaFees = Fin 0, maintenancePercent = Fin 1,
       vacancyPercent = Fin 5, propertyManagementPercent = Fin 10 \<rparr>"
  by (simp add: new_PropertyCalculator_def zeroDownProperty_def parse_eval)

lemma new_zeroRateProperty:
  "new_PropertyCalculator zeroRateProperty = new_PropertyCalculator testProperty"
  by (simp add: new_PropertyCalculator_def zeroRateProperty_def testProperty_def parse_eval)

lemma new_lowRentProperty:
  "new_PropertyCalculator lowRentProperty =
     \<lparr> purchasePrice = Fin 0, downPaymentPercent = Fin 20, interestRate = Fin 7,
       loanTerm = Fin 30, monthlyRent = Fin 100, propertyTax = Fin 0,
       insurance = Fin 0, hoaFees = Fin 0, maintenancePercent = Fin 100,
       vacancyPercent = Fin 5, propertyManagementPercent = Fin 10 \<rparr>"
  by (simp add: new_PropertyCalculator_def lowRentProperty_def parse_eval)

lemma new_highRentProperty:
  "new_PropertyCalculator highRentProperty =
     \<lparr> purchasePrice = Fin 0, downPaymentPercent = Fin 20, interestRate = Fin 7,
       loanTerm = Fin 30, monthlyRent = Fin 200, propertyTax = Fin 0,
       insurance = Fin 0, hoaFees = Fin 0, maintenancePercent = Fin 100,
       vacancyPercent = Fin 5, propertyManagementPercent = Fin 10 \<rparr>"
  by (simp add: new_PropertyCalculator_def highRentProperty_def lowRentProperty_def parse_eval)


lemma new_negativeRateProperty:
  "new_PropertyCalculator negativeRateProperty =
     \<lparr> purchasePrice = Fin 300000, downPaymentPercent = Fin 20, interestRate = Fin (- 2400),
       loanTerm = Fin 30, monthlyRent = Fin 2000, propertyTax = Fin 3000,
       insurance = Fin 1200, hoaFees = Fin 0, maintenancePercent = Fin 1,
       vacancyPercent = Fin 5, propertyManagementPercent = Fin 10 \<rparr>"
  by (simp add: new_PropertyCalculator_def negativeRateProperty_def testProperty_def parse_eval)

text \<open>
  The report depends on the request through the eleven fields that the constructor reads,
  and through nothing else the request carries.
\<close>

lemma report_depends_on_parameters_only:
  assumes "\<forall>name \<in> set parameter_names. propertyData1 name = propertyData2 name"
  shows "analyze propertyData1 = analyze propertyData2"
proof -
  have "field propertyData1 name = field propertyData2 name" if "name \<in> set parameter_names"
    for name using assms that by (simp add: field_def)
  then have "new_PropertyCalculator propertyData1 = new_PropertyCalculator propertyData2"
    by (simp add: new_PropertyCalculator_def parameter_names_def)
  then show ?thesis by (simp add: analyze_def)
qed

section \<open>The mortgage and the cash flow\<close>

lemma digits_of_eval:
  "digits_of 0 = ''0''"
  "digits_of 1 = ''1''"
  "digits_of (numeral k) =
     (if (numeral k :: nat) < 10 then [''0123456789'' ! numeral k]
      else digits_of (numeral k div 10) @ [''0123456789'' ! (numeral k mod 10)])"
  by (simp_all add: digits_of.simps [of 0] digits_of.simps [of 1] digits_of.simps [of "numeral k"]
      del: One_nat_def)

text \<open>
  \<open>getMonthlyMortgage\<close> has the straight-line branch for a calculator whose interest rate
  is zero, but no calculator that the constructor builds has one.
\<close>

lemma zero_rate_branch:
  assumes "is_zero (interestRate this)"
  shows "getMonthlyMortgage this = js_div (getLoanAmount this) (js_mul (loanTerm this) (Fin 12))"
proof -
  have "js_strict_eq (js_div (js_div (interestRate this) (Fin 100)) (Fin 12)) (Fin 0)"
    using assms by (cases "interestRate this")
      (simp_all add: js_div_def js_strict_eq_def mk_fin_def signed_zero_def)
  then show ?thesis by (simp add: getMonthlyMortgage_def Let_def)
qed

text \<open>With no purchase price there is no loan, and the mortgage is zero.\<close>

lemma no_loan:
  assumes "purchasePrice this = Fin 0" "downPaymentPercent this = Fin 20"
    "interestRate this = Fin 7" "loanTerm this = Fin 30"
  shows "getMonthlyMortgage this = Fin 0"
proof -
  have P: "0 < (1207 / 1200 :: real) ^ 360" "\<not> (1207 / 1200 :: real) ^ 360 < 1"
    "(1207 / 1200 :: real) ^ 360 \<noteq> 1"
    using pow360(1) by linarith+
  have la: "getLoanAmount this = Fin 0"
    by (simp add: getLoanAmount_def getDownPayment_def assms js_mul_Fin js_div_Fin js_sub_Fin
        mk_fin_def signed_zero_def)
  show ?thesis
    using P
    by (simp add: getMonthlyMortgage_def la assms Let_def js_div_Fin js_mul_Fin js_add_Fin
        js_sub_Fin mk_fin_def signed_zero_def js_strict_eq_def Math_pow_def is_integer_numeral)
qed


text \<open>
  At an interest rate of -2400 percent the monthly rate is -2, the growth factor
  \<open>(1 - 2)\<^sup>3\<^sup>6\<^sup>0\<close> is 1, and the amortization formula divides -480000 by zero.
\<close>

lemma negative_rate_mortgage:
  "getMonthlyMortgage (new_PropertyCalculator negativeRateProperty) = NInf"
proof -
  let ?c = "new_PropertyCalculator negativeRateProperty"
  have la: "getLoanAmount ?c = Fin 240000"
    by (simp add: getLoanAmount_def getDownPayment_def new_negativeRateProperty js_mul_Fin
        js_div_Fin js_sub_Fin mk_fin_def)
  have rate: "js_div (js_div (interestRate ?c) (Fin 100)) (Fin 12) = Fin (- 2)"
    by (simp add: new_negativeRateProperty js_div_Fin mk_fin_def)
  have n: "js_mul (loanTerm ?c) (Fin 12) = Fin 360"
    by (simp add: new_negativeRateProperty js_mul_Fin mk_fin_def)
  have p: "Math_pow (js_add (Fin 1) (Fin (- 2))) (Fin 360) = Fin 1"
    by (simp add: js_add_Fin Math_pow_def is_integer_numeral)
  show ?thesis
    unfolding getMonthlyMortgage_def Let_def la rate n p
    by (simp add: js_strict_eq_def js_sub_Fin js_mul_Fin mk_fin_def js_div_def signed_inf_def)
qed

lemma negative_rate_total:
  "expenses_total (getMonthlyExpenses (new_PropertyCalculator negativeRateProperty)) = NInf"
  unfolding total_unfold negative_rate_mortgage
  by (simp add: new_negativeRateProperty js_add_def js_div_Fin js_mul_Fin mk_fin_def
      signed_zero_def)




lemma rent_100_200_cashFlow:
  "getMonthlyCashFlow (new_PropertyCalculator lowRentProperty) = Fin (- 15)"
  "getMonthlyCashFlow (new_PropertyCalculator highRentProperty) = Fin (- 30)"
proof -
  have m: "getMonthlyMortgage (new_PropertyCalculator lowRentProperty) = Fin 0"
    "getMonthlyMortgage (new_PropertyCalculator highRentProperty) = Fin 0"
    by (rule no_loan; simp add: new_lowRentProperty new_highRentProperty)+
  show "getMonthlyCashFlow (new_PropertyCalculator lowRentProperty) = Fin (- 15)"
    unfolding cashFlow_unfold m
    by (simp add: new_lowRentProperty js_mul_Fin js_div_Fin js_add_Fin js_sub_Fin mk_fin_def
        signed_zero_def)
  show "getMonthlyCashFlow (new_PropertyCalculator highRentProperty) = Fin (- 30)"
    unfolding cashFlow_unfold m
    by (simp add: new_highRentProperty js_mul_Fin js_div_Fin js_add_Fin js_sub_Fin mk_fin_def
        signed_zero_def)
qed

section \<open>The claims\<close>

text \<open>
  C1. A request with \<open>downPaymentPercent = 0\<close> and a purchase price of 300000 (the request
  of the test suite's zero-down case) does not get a down payment near 0 and a loan near
  the purchase price: the constructor takes the 0 for a missing value, and the report
  shows 20 percent down, a down payment of 60000 and a loan of 240000.
\<close>

theorem zero_down_payment_is_defaulted:
  "field zeroDownProperty ''downPaymentPercent'' = JNum (Fin 0)
   \<and> purchaseInfo_downPaymentPercent (purchaseInfo (analyze zeroDownProperty)) = Fin 20
   \<and> purchaseInfo_downPayment (purchaseInfo (analyze zeroDownProperty)) = Fin 60000
   \<and> purchaseInfo_loanAmount (purchaseInfo (analyze zeroDownProperty)) = Fin 240000
   \<and> \<not> \<bar>val (purchaseInfo_downPayment (purchaseInfo (analyze zeroDownProperty)))\<bar> < 1 / 100
   \<and> \<not> \<bar>val (purchaseInfo_loanAmount (purchaseInfo (analyze zeroDownProperty))) - 300000\<bar>
         < 1 / 100"
  by (simp add: analyze_def report_purchaseInfo standard_loan new_zeroDownProperty)
    (simp add: zeroDownProperty_def field_def)

text \<open>
  C2. A request with \<open>interestRate = 0\<close> and a loan term of 30 years does not get the
  straight-line payment \<open>loanAmount / (loanTerm * 12)\<close>, here 240000 / 360: the
  constructor takes the 0 for a missing value, the rate is 7 percent, and the monthly
  mortgage is the amortized payment, between 1595 and 1598.
\<close>

theorem zero_interest_rate_is_defaulted:
  "field zeroRateProperty ''interestRate'' = JNum (Fin 0)
   \<and> js_lt (Fin 0) (loanTerm (new_PropertyCalculator zeroRateProperty))
   \<and> interestRate (new_PropertyCalculator zeroRateProperty) = Fin 7
   \<and> js_div (getLoanAmount (new_PropertyCalculator zeroRateProperty))
        (js_mul (loanTerm (new_PropertyCalculator zeroRateProperty)) (Fin 12)) = Fin (2000 / 3)
   \<and> monthlyNumbers_mortgage (monthlyNumbers (analyze zeroRateProperty)) =
        Fin (240000 * (7 / 1200 * (1207 / 1200) ^ 360) / ((1207 / 1200) ^ 360 - 1))
   \<and> 1595 < val (monthlyNumbers_mortgage (monthlyNumbers (analyze zeroRateProperty)))
   \<and> val (monthlyNumbers_mortgage (monthlyNumbers (analyze zeroRateProperty))) < 1598
   \<and> monthlyNumbers_mortgage (monthlyNumbers (analyze zeroRateProperty)) \<noteq>
        js_div (getLoanAmount (new_PropertyCalculator zeroRateProperty))
          (js_mul (loanTerm (new_PropertyCalculator zeroRateProperty)) (Fin 12))"
proof -
  let ?c = "new_PropertyCalculator zeroRateProperty"
  have c: "purchasePrice ?c = Fin 300000" "downPaymentPercent ?c = Fin 20"
    "interestRate ?c = Fin 7" "loanTerm ?c = Fin 30"
    by (simp_all add: new_zeroRateProperty new_testProperty)
  have f: "field zeroRateProperty ''interestRate'' = JNum (Fin 0)"
    by (simp add: zeroRateProperty_def field_def)
  have l: "js_lt (Fin 0) (loanTerm ?c)"
    by (simp add: c js_lt_def)
  have s: "js_div (getLoanAmount ?c) (js_mul (loanTerm ?c) (Fin 12)) = Fin (2000 / 3)"
    by (simp add: standard_loan(2) [OF c] c js_mul_Fin js_div_Fin mk_fin_def)
  have m: "monthlyNumbers_mortgage (monthlyNumbers (analyze zeroRateProperty)) =
        Fin (240000 * (7 / 1200 * (1207 / 1200) ^ 360) / ((1207 / 1200) ^ 360 - 1))"
    unfolding analyze_def report_mortgage by (rule standard_loan(3) [OF c])
  have b: "1595 < val (monthlyNumbers_mortgage (monthlyNumbers (analyze zeroRateProperty)))"
    "val (monthlyNumbers_mortgage (monthlyNumbers (analyze zeroRateProperty))) < 1598"
    unfolding m val.simps by (rule amortization_bounds [OF pow360])+
  from b(1) have n: "monthlyNumbers_mortgage (monthlyNumbers (analyze zeroRateProperty)) \<noteq>
        js_div (getLoanAmount (new_PropertyCalculator zeroRateProperty))
          (js_mul (loanTerm (new_PropertyCalculator zeroRateProperty)) (Fin 12))"
    unfolding s by auto
  from f l c(3) s m b n show ?thesis by (intro conjI)
qed

text \<open>
  C3. The constructor replaces every falsy parse result by the field's default: a field
  that is absent, unparsable, \<open>NaN\<close> or zero becomes 0 (purchasePrice, monthlyRent,
  propertyTax, insurance, hoaFees), 20 (downPaymentPercent), 7 (interestRate), 30
  (loanTerm), 1 (maintenancePercent), 5 (vacancyPercent) or 10
  (propertyManagementPercent). So the six fields with a default other than zero are never
  zero after construction, and a request that gives one of them as the number 0 gets the
  default instead.
\<close>

theorem constructor_coalesces_falsy:
  "(defaulted parseFloat propertyData ''purchasePrice'' \<longrightarrow>
      purchasePrice (new_PropertyCalculator propertyData) = Fin 0)
   \<and> (defaulted parseFloat propertyData ''downPaymentPercent'' \<longrightarrow>
      downPaymentPercent (new_PropertyCalculator propertyData) = Fin 20)
   \<and> (defaulted parseFloat propertyData ''interestRate'' \<longrightarrow>
      interestRate (new_PropertyCalculator propertyData) = Fin 7)
   \<and> (defaulted parseInt propertyData ''loanTerm'' \<longrightarrow>
      loanTerm (new_PropertyCalculator propertyData) = Fin 30)
   \<and> (defaulted parseFloat propertyData ''monthlyRent'' \<longrightarrow>
      monthlyRent (new_PropertyCalculator propertyData) = Fin 0)
   \<and> (defaulted parseFloat propertyData ''propertyTax'' \<longrightarrow>
      propertyTax (new_PropertyCalculator propertyData) = Fin 0)
   \<and> (defaulted parseFloat propertyData ''insurance'' \<longrightarrow>
      insurance (new_PropertyCalculator propertyData) = Fin 0)
   \<and> (defaulted parseFloat propertyData ''hoaFees'' \<longrightarrow>
      hoaFees (new_PropertyCalculator propertyData) = Fin 0)
   \<and> (defaulted parseFloat propertyData ''maintenancePercent'' \<longrightarrow>
      maintenancePercent (new_PropertyCalculator propertyData) = Fin 1)
   \<and> (defaulted parseFloat propertyData ''vacancyPercent'' \<longrightarrow>
      vacancyPercent (new_PropertyCalculator propertyData) = Fin 5)
   \<and> (defaulted parseFloat propertyData ''propertyManagementPercent'' \<longrightarrow>
      propertyManagementPercent (new_PropertyCalculator propertyData) = Fin 10)
   \<and> \<not> is_zero (downPaymentPercent (new_PropertyCalculator propertyData))
   \<and> \<not> is_zero (interestRate (new_PropertyCalculator propertyData))
   \<and> \<not> is_zero (loanTerm (new_PropertyCalculator propertyData))
   \<and> \<not> is_zero (maintenancePercent (new_PropertyCalculator propertyData))
   \<and> \<not> is_zero (vacancyPercent (new_PropertyCalculator propertyData))
   \<and> \<not> is_zero (propertyManagementPercent (new_PropertyCalculator propertyData))
   \<and> (field propertyData ''downPaymentPercent'' = JNum (Fin 0) \<longrightarrow>
      downPaymentPercent (new_PropertyCalculator propertyData) = Fin 20)
   \<and> (field propertyData ''interestRate'' = JNum (Fin 0) \<longrightarrow>
      interestRate (new_PropertyCalculator propertyData) = Fin 7)
   \<and> (field propertyData ''loanTerm'' = JNum (Fin 0) \<longrightarrow>
      loanTerm (new_PropertyCalculator propertyData) = Fin 30)
   \<and> (field propertyData ''maintenancePercent'' = JNum (Fin 0) \<longrightarrow>
      maintenancePercent (new_PropertyCalculator propertyData) = Fin 1)
   \<and> (field propertyData ''vacancyPercent'' = JNum (Fin 0) \<longrightarrow>
      vacancyPercent (new_PropertyCalculator propertyData) = Fin 5)
   \<and> (field propertyData ''propertyManagementPercent'' = JNum (Fin 0) \<longrightarrow>
      propertyManagementPercent (new_PropertyCalculator propertyData) = Fin 10)"
  by (simp add: new_PropertyCalculator_def defaulted_parseFloat defaulted_parseInt
      js_or_nonzero js_or_zero)

theorem constructor_coalesces_falsy_witness:
  "defaulted parseFloat degenerateProperty ''purchasePrice''
   \<and> purchasePrice (new_PropertyCalculator degenerateProperty) = Fin 0
   \<and> field degenerateProperty ''downPaymentPercent'' = JNum (Fin 0)
   \<and> downPaymentPercent (new_PropertyCalculator degenerateProperty) = Fin 20
   \<and> field degenerateProperty ''interestRate'' = JNum (Fin 0)
   \<and> interestRate (new_PropertyCalculator degenerateProperty) = Fin 7
   \<and> field degenerateProperty ''loanTerm'' = JNum (Fin 0)
   \<and> loanTerm (new_PropertyCalculator degenerateProperty) = Fin 30
   \<and> defaulted parseFloat degenerateProperty ''monthlyRent''
   \<and> monthlyRent (new_PropertyCalculator degenerateProperty) = Fin 0
   \<and> defaulted parseFloat degenerateProperty ''propertyTax''
   \<and> propertyTax (new_PropertyCalculator degenerateProperty) = Fin 0
   \<and> defaulted parseFloat degenerateProperty ''insurance''
   \<and> insurance (new_PropertyCalculator degenerateProperty) = Fin 0
   \<and> defaulted parseFloat degenerateProperty ''hoaFees''
   \<and> hoaFees (new_PropertyCalculator degenerateProperty) = Fin 0
   \<and> field degenerateProperty ''maintenancePercent'' = JNum (Fin 0)
   \<and> maintenancePercent (new_PropertyCalculator degenerateProperty) = Fin 1
   \<and> field degenerateProperty ''vacancyPercent'' = JNum (Fin 0)
   \<and> vacancyPercent (new_PropertyCalculator degenerateProperty) = Fin 5
   \<and> field degenerateProperty ''propertyManagementPercent'' = JNum (Fin 0)
   \<and> propertyManagementPercent (new_PropertyCalculator degenerateProperty) = Fin 10"
proof -
  have d: "defaulted parseFloat degenerateProperty ''purchasePrice''"
    "defaulted parseFloat degenerateProperty ''monthlyRent''"
    "defaulted parseFloat degenerateProperty ''propertyTax''"
    "defaulted parseFloat degenerateProperty ''insurance''"
    "defaulted parseFloat degenerateProperty ''hoaFees''"
    by (simp_all add: defaulted_def degenerateProperty_def parse_eval)
  have f: "field degenerateProperty ''downPaymentPercent'' = JNum (Fin 0)"
    "field degenerateProperty ''interestRate'' = JNum (Fin 0)"
    "field degenerateProperty ''loanTerm'' = JNum (Fin 0)"
    "field degenerateProperty ''maintenancePercent'' = JNum (Fin 0)"
    "field degenerateProperty ''vacancyPercent'' = JNum (Fin 0)"
    "field degenerateProperty ''propertyManagementPercent'' = JNum (Fin 0)"
    by (simp_all add: degenerateProperty_def field_def)
  from d f constructor_coalesces_falsy [of degenerateProperty] show ?thesis
    by simp
qed

text \<open>
  C4. The recommendation goes by the first rule that matches: a monthly cash flow below 0
  gives AVOID (red); otherwise a cash flow below 100 or an roi below 5 gives MARGINAL
  (yellow); otherwise an roi of at least 10 with a cash flow of at least 200 gives
  EXCELLENT (green); otherwise GOOD (blue). The report's recommendation is this function
  of the report's monthly cash flow and roi, so a report with a negative monthly cash
  flow has the verdict AVOID whatever its roi.
\<close>

theorem recommendation_precedence:
  "(js_lt monthlyCashFlow (Fin 0) \<longrightarrow>
      verdict (getRecommendation monthlyCashFlow roi) = ''AVOID''
      \<and> color (getRecommendation monthlyCashFlow roi) = ''red'')
   \<and> (\<not> js_lt monthlyCashFlow (Fin 0)
        \<and> (js_lt monthlyCashFlow (Fin 100) \<or> js_lt roi (Fin 5)) \<longrightarrow>
      verdict (getRecommendation monthlyCashFlow roi) = ''MARGINAL''
      \<and> color (getRecommendation monthlyCashFlow roi) = ''yellow'')
   \<and> (\<not> js_lt monthlyCashFlow (Fin 0)
        \<and> \<not> (js_lt monthlyCashFlow (Fin 100) \<or> js_lt roi (Fin 5))
        \<and> js_ge roi (Fin 10) \<and> js_ge monthlyCashFlow (Fin 200) \<longrightarrow>
      verdict (getRecommendation monthlyCashFlow roi) = ''EXCELLENT''
      \<and> color (getRecommendation monthlyCashFlow roi) = ''green'')
   \<and> (\<not> js_lt monthlyCashFlow (Fin 0)
        \<and> \<not> (js_lt monthlyCashFlow (Fin 100) \<or> js_lt roi (Fin 5))
        \<and> \<not> (js_ge roi (Fin 10) \<and> js_ge monthlyCashFlow (Fin 200)) \<longrightarrow>
      verdict (getRecommendation monthlyCashFlow roi) = ''GOOD''
      \<and> color (getRecommendation monthlyCashFlow roi) = ''blue'')
   \<and> recommendation (analyze propertyData) =
       getRecommendation (monthlyNumbers_cashFlow (monthlyNumbers (analyze propertyData)))
         (metrics_roi (metrics (analyze propertyData)))
   \<and> (js_lt (monthlyNumbers_cashFlow (monthlyNumbers (analyze propertyData))) (Fin 0) \<longrightarrow>
      verdict (recommendation (analyze propertyData)) = ''AVOID'')"
  by (simp add: analyze_def report_recommendation) (simp add: getRecommendation_def)

theorem recommendation_precedence_witness:
  "verdict (getRecommendation (Fin (- 1)) (Fin 50)) = ''AVOID''
   \<and> color (getRecommendation (Fin 150) (Fin 4)) = ''yellow''
   \<and> verdict (getRecommendation (Fin 200) (Fin 10)) = ''EXCELLENT''
   \<and> color (getRecommendation (Fin 150) (Fin 12)) = ''blue''
   \<and> verdict (getRecommendation NaN NaN) = ''GOOD''
   \<and> js_lt (monthlyNumbers_cashFlow (monthlyNumbers (analyze lowRentProperty))) (Fin 0)
   \<and> verdict (recommendation (analyze lowRentProperty)) = ''AVOID''"
proof -
  have neg: "js_lt (monthlyNumbers_cashFlow (monthlyNumbers (analyze lowRentProperty))) (Fin 0)"
    by (simp add: analyze_def report_monthly_cashFlow rent_100_200_cashFlow js_lt_def)
  have cmp: "js_lt (Fin (- 1)) (Fin 0)" "\<not> js_lt (Fin 150) (Fin 0)" "\<not> js_lt (Fin 150) (Fin 100)"
    "js_lt (Fin 4) (Fin 5)" "\<not> js_lt (Fin 200) (Fin 0)" "\<not> js_lt (Fin 200) (Fin 100)"
    "\<not> js_lt (Fin 10) (Fin 5)" "js_ge (Fin 10) (Fin 10)" "js_ge (Fin 200) (Fin 200)"
    "\<not> js_lt (Fin 12) (Fin 5)" "\<not> js_ge (Fin 150) (Fin 200)"
    "\<not> js_lt NaN x" "\<not> js_ge NaN x" for x
    by (simp_all add: js_lt_def js_ge_def)
  from neg cmp
    recommendation_precedence [of "Fin (- 1)" "Fin 50" lowRentProperty]
    recommendation_precedence [of "Fin 150" "Fin 4"]
    recommendation_precedence [of "Fin 200" "Fin 10"]
    recommendation_precedence [of "Fin 150" "Fin 12"]
    recommendation_precedence [of NaN NaN]
  show ?thesis by simp
qed

text \<open>
  C5. For every request, the report's \<open>roi\<close> is its \<open>cashOnCashReturn\<close>: \<open>getROI\<close> and
  \<open>getCashOnCashReturn\<close> return the same string, the annual cash flow over the down
  payment times 100 with two decimals.
\<close>

theorem roi_is_cashOnCashReturn:
  "metrics_roi (metrics (analyze propertyData)) =
     metrics_cashOnCashReturn (metrics (analyze propertyData))
   \<and> getROI this = getCashOnCashReturn this
   \<and> getROI this =
       toFixed2 (js_mul (js_div (getAnnualCashFlow this) (getDownPayment this)) (Fin 100))"
  by (simp add: analyze_def getFullAnalysis_def getROI_def getCashOnCashReturn_def Let_def)

text \<open>
  C6, as stated, fails in its second half: a positive purchase price and loan term do not
  make the total finite. At an interest rate of -2400 percent the mortgage, the total and
  the sum of the seven components are all \<open>-Infinity\<close>; their difference is \<open>NaN\<close>, and
  \<open>NaN\<close> is not below \<open>10\<^sup>-\<^sup>6\<close>.
\<close>

theorem totalExpenses_tolerance_fails:
  "js_lt (Fin 0) (purchaseInfo_loanTerm (purchaseInfo (analyze negativeRateProperty)))
   \<and> js_lt (Fin 0) (purchaseInfo_purchasePrice (purchaseInfo (analyze negativeRateProperty)))
   \<and> monthlyNumbers_totalExpenses (monthlyNumbers (analyze negativeRateProperty)) = NInf
   \<and> sum_of_components (monthlyNumbers (analyze negativeRateProperty)) = NInf
   \<and> \<not> js_lt
         (Math_abs (js_sub
            (monthlyNumbers_totalExpenses (monthlyNumbers (analyze negativeRateProperty)))
            (sum_of_components (monthlyNumbers (analyze negativeRateProperty)))))
         (Fin (1 / 10 ^ 6))"
proof -
  have t: "monthlyNumbers_totalExpenses (monthlyNumbers (analyze negativeRateProperty)) = NInf"
    unfolding analyze_def report_totalExpenses by (rule negative_rate_total)
  have s: "sum_of_components (monthlyNumbers (analyze negativeRateProperty)) = NInf"
    unfolding analyze_def report_components total_unfold [symmetric]
    by (rule negative_rate_total)
  have l: "purchaseInfo_loanTerm (purchaseInfo (analyze negativeRateProperty)) = Fin 30"
    "purchaseInfo_purchasePrice (purchaseInfo (analyze negativeRateProperty)) = Fin 300000"
    by (simp_all add: analyze_def getFullAnalysis_def Let_def new_negativeRateProperty)
  show ?thesis
    unfolding t s l by (simp add: js_lt_def js_sub_def js_add_def)
qed

text \<open>
  C6, as amended. For every request, the total expenses of the report are the very number
  that adding the report's seven components gives (mortgage, property tax, insurance, HOA,
  maintenance, vacancy, management, in this order), with nothing else added; and whenever
  the total is finite, the total less that sum is 0, which is below \<open>10\<^sup>-\<^sup>6\<close>.
\<close>

theorem totalExpenses_is_sum_of_components:
  "monthlyNumbers_totalExpenses (monthlyNumbers (analyze propertyData)) =
     sum_of_components (monthlyNumbers (analyze propertyData))
   \<and> (finite_num (monthlyNumbers_totalExpenses (monthlyNumbers (analyze propertyData))) \<longrightarrow>
        js_sub (monthlyNumbers_totalExpenses (monthlyNumbers (analyze propertyData)))
          (sum_of_components (monthlyNumbers (analyze propertyData))) = Fin 0
        \<and> js_lt
            (Math_abs (js_sub
               (monthlyNumbers_totalExpenses (monthlyNumbers (analyze propertyData)))
               (sum_of_components (monthlyNumbers (analyze propertyData)))))
            (Fin (1 / 10 ^ 6)))"
proof -
  define m where "m = monthlyNumbers (analyze propertyData)"
  have eq: "monthlyNumbers_totalExpenses m = sum_of_components m"
    unfolding m_def analyze_def report_totalExpenses report_components total_unfold ..
  have "js_sub (monthlyNumbers_totalExpenses m) (sum_of_components m) = Fin 0"
    if "finite_num (monthlyNumbers_totalExpenses m)"
    using that unfolding eq [symmetric] by (rule js_sub_self)
  with eq show ?thesis
    unfolding m_def by (simp add: js_lt_def)
qed

theorem totalExpenses_is_sum_of_components_witness:
  "finite_num (monthlyNumbers_totalExpenses (monthlyNumbers (analyze testProperty)))
   \<and> js_sub (monthlyNumbers_totalExpenses (monthlyNumbers (analyze testProperty)))
        (sum_of_components (monthlyNumbers (analyze testProperty))) = Fin 0
   \<and> js_lt
        (Math_abs (js_sub
           (monthlyNumbers_totalExpenses (monthlyNumbers (analyze testProperty)))
           (sum_of_components (monthlyNumbers (analyze testProperty)))))
        (Fin (1 / 10 ^ 6))"
proof -
  have fin: "finite_num (monthlyNumbers_totalExpenses (monthlyNumbers (analyze testProperty)))"
    unfolding analyze_def report_totalExpenses by (rule test_totalExpenses_finite)
  with totalExpenses_is_sum_of_components [of testProperty] show ?thesis
    by blast
qed

text \<open>
  C7. For every request, and for every calculator, the annual cash flow of the report is
  the monthly cash flow of the report times 12: the very number that the multiplication
  gives.
\<close>

theorem annual_cashFlow_is_12_monthly:
  "annualNumbers_cashFlow (annualNumbers (analyze propertyData)) =
     js_mul (monthlyNumbers_cashFlow (monthlyNumbers (analyze propertyData))) (Fin 12)
   \<and> annualNumbers_cashFlow (annualNumbers (getFullAnalysis this)) =
     js_mul (monthlyNumbers_cashFlow (monthlyNumbers (getFullAnalysis this))) (Fin 12)"
  by (simp add: analyze_def report_monthly_cashFlow report_annual_cashFlow
      getAnnualCashFlow_def)

text \<open>
  C8. For the property of the test suite (300000 at 20 percent down, 7 percent over 30
  years, rent 2000, tax 3000, insurance 1200, no HOA fees, 1, 5 and 10 percent of rent
  for maintenance, vacancy and management) the annual NOI is
  24000 - (3000 + 1200 + 0 + 240 + 1200 + 2400) = 15960 and the cap rate is 5.32.
\<close>

theorem test_property_noi_and_capRate:
  "annualNumbers_noi (annualNumbers (analyze testProperty)) =
     Fin (24000 - (3000 + 1200 + 0 + 240 + 1200 + 2400))
   \<and> annualNumbers_noi (annualNumbers (analyze testProperty)) = Fin 15960
   \<and> getCapRate (new_PropertyCalculator testProperty) = Chars ''5.32''
   \<and> metrics_capRate (metrics (analyze testProperty)) = Fin (532 / 100)"
proof -
  have noi: "getNOI (new_PropertyCalculator testProperty) = Fin 15960"
    by (simp add: getNOI_def new_testProperty Let_def js_mul_Fin js_div_Fin js_add_Fin
        js_sub_Fin mk_fin_def signed_zero_def)
  have price: "purchasePrice (new_PropertyCalculator testProperty) = Fin 300000"
    by (simp add: new_testProperty)
  have "js_mul (js_div (Fin 15960) (Fin 300000)) (Fin 100) = Fin (532 / 100)"
    by (simp add: js_mul_Fin js_div_Fin mk_fin_def)
  moreover have "toFixed2 (Fin (532 / 100)) = Chars ''5.32''"
    by (simp add: toFixed2_def Let_def digits_of_eval)
  ultimately have cap: "getCapRate (new_PropertyCalculator testProperty) = Chars ''5.32''"
    by (simp add: getCapRate_def noi price Let_def)
  have "parseFloat (JStr (Chars ''5.32'')) = Fin (532 / 100)"
    by (simp add: parse_eval)
  with noi cap show ?thesis
    by (simp add: analyze_def report_noi report_capRate)
qed




end
